theory Spec2Isabelle
  imports Main
begin

section \<open>Strings as the handlers use them\<close>

text \<open>
  A string is a list of characters, each standing for the code point of its number
  (U+0000 to U+00FF). The handlers use a handful of JavaScript string methods; each is
  given here with the behaviour it has on the empty string and on strings without a
  separator.
\<close>

text \<open>
  \<^verbatim>\<open>toLowerCase\<close> on these characters works one character at a time: the letters A to Z
  and the capital letters U+00C0 to U+00DE (the multiplication sign U+00D7 is not one)
  move up by 32, every other character stays.
\<close>

definition lower_char :: "char \<Rightarrow> char" where
  "lower_char c =
     (case map_of
        (zip (''ABCDEFGHIJKLMNOPQRSTUVWXYZ'' @
              [CHR 0xC0, CHR 0xC1, CHR 0xC2, CHR 0xC3, CHR 0xC4, CHR 0xC5, CHR 0xC6, CHR 0xC7,
               CHR 0xC8, CHR 0xC9, CHR 0xCA, CHR 0xCB, CHR 0xCC, CHR 0xCD, CHR 0xCE, CHR 0xCF,
               CHR 0xD0, CHR 0xD1, CHR 0xD2, CHR 0xD3, CHR 0xD4, CHR 0xD5, CHR 0xD6, CHR 0xD8,
               CHR 0xD9, CHR 0xDA, CHR 0xDB, CHR 0xDC, CHR 0xDD, CHR 0xDE])
             (''abcdefghijklmnopqrstuvwxyz'' @
              [CHR 0xE0, CHR 0xE1, CHR 0xE2, CHR 0xE3, CHR 0xE4, CHR 0xE5, CHR 0xE6, CHR 0xE7,
               CHR 0xE8, CHR 0xE9, CHR 0xEA, CHR 0xEB, CHR 0xEC, CHR 0xED, CHR 0xEE, CHR 0xEF,
               CHR 0xF0, CHR 0xF1, CHR 0xF2, CHR 0xF3, CHR 0xF4, CHR 0xF5, CHR 0xF6, CHR 0xF8,
               CHR 0xF9, CHR 0xFA, CHR 0xFB, CHR 0xFC, CHR 0xFD, CHR 0xFE])) c of
        None \<Rightarrow> c
      | Some d \<Rightarrow> d)"

text \<open>
  \<^verbatim>\<open>toUpperCase\<close> is applied only to the first character of the model name, after the
  model name has been found among the eight names of the switch; those begin with an
  ASCII letter.
\<close>

definition upper_char :: "char \<Rightarrow> char" where
  "upper_char c =
     (case map_of (zip ''abcdefghijklmnopqrstuvwxyz'' ''ABCDEFGHIJKLMNOPQRSTUVWXYZ'') c of
        None \<Rightarrow> c
      | Some d \<Rightarrow> d)"

text \<open>\<^verbatim>\<open>s.toLowerCase()\<close>\<close>

definition toLowerCase :: "string \<Rightarrow> string" where
  "toLowerCase s = map lower_char s"

text \<open>
  \<^verbatim>\<open>s.split(' ')\<close>: the pieces between single space characters. The empty string
  gives one empty piece, and two adjacent spaces give an empty piece between them.
\<close>

fun split_sp :: "string \<Rightarrow> string list" where
  "split_sp [] = [[]]"
| "split_sp (c # cs) =
     (if c = CHR '' '' then [] # split_sp cs
      else (case split_sp cs of [] \<Rightarrow> [[c]] | w # ws \<Rightarrow> (c # w) # ws))"

text \<open>\<^verbatim>\<open>ws.join(' ')\<close>\<close>

fun join_sp :: "string list \<Rightarrow> string" where
  "join_sp [] = []"
| "join_sp [w] = w"
| "join_sp (w # v # ws) = w @ CHR '' '' # join_sp (v # ws)"

text \<open>\<^verbatim>\<open>s.includes(k)\<close>: \<open>k\<close> occurs in \<open>s\<close> as a contiguous piece.\<close>

fun str_includes :: "string \<Rightarrow> string \<Rightarrow> bool" where
  "str_includes [] k = (k = [])"
| "str_includes (c # cs) k = (take (length k) (c # cs) = k \<or> str_includes cs k)"

text \<open>\<^verbatim>\<open>s.charAt(0).toUpperCase() + s.slice(1)\<close>\<close>

definition capitalise :: "string \<Rightarrow> string" where
  "capitalise s = (case s of [] \<Rightarrow> [] | c # cs \<Rightarrow> upper_char c # cs)"

section \<open>The turn dispatcher (pages/api/chat.ts)\<close>

subsection \<open>Request bodies\<close>

text \<open>
  The handler receives the request body already parsed. An object is the list of its
  own properties; \<open>map_of\<close> reads a property. No handler looks inside a number, so
  numbers are kept as integers.
\<close>

datatype json =
    JNull
  | JBool bool
  | JNumber int
  | JString string
  | JArray "json list"
  | JObject "(string \<times> json) list"

datatype error =
    ZodError
  | BackendFailure
  | Error string

text \<open>
  \<^verbatim>\<open>requestSchema = z.object({ message: z.string(), model: z.string().default("gpt") })\<close>.
  Parsing gives the pair (message, model) or throws.
\<close>

definition requestSchema :: "json \<Rightarrow> error + (string \<times> string)" where
  "requestSchema body =
     (case body of
        JObject props \<Rightarrow>
          (case map_of props ''message'' of
             Some (JString message) \<Rightarrow>
               (case map_of props ''model'' of
                  None \<Rightarrow> Inr (message, ''gpt'')
                | Some (JString modelName) \<Rightarrow> Inr (message, modelName)
                | Some _ \<Rightarrow> Inl ZodError)
           | _ \<Rightarrow> Inl ZodError)
      | _ \<Rightarrow> Inl ZodError)"

subsection \<open>Collaborators and the calls made to them\<close>

datatype VoiceType = Alloy | Echo | Fable | Onyx | Nova | Shimmer

text \<open>
  The three backends and the speech service are outside the program. Each is a function
  from the arguments the handler passes to the text it returns, \<open>None\<close> when the call
  throws. The hosted client is constructed with an optional model name.
\<close>

record collaborators =
  llm_invoke :: "string option \<Rightarrow> string \<Rightarrow> string option"
  ollama_invoke :: "string \<Rightarrow> string \<Rightarrow> string option"
  axios_post :: "string \<Rightarrow> string \<Rightarrow> string option"
  speech_create :: "string \<Rightarrow> VoiceType \<Rightarrow> string option"

text \<open>Every call to a collaborator is recorded, in the order the handler makes it.\<close>

datatype call =
    HostedCall "string option" string
  | LocalCall string string
  | AggregatorCall string string
  | SpeechCall string VoiceType

definition is_backend_call :: "call \<Rightarrow> bool" where
  "is_backend_call c = (case c of SpeechCall _ _ \<Rightarrow> False | _ \<Rightarrow> True)"

definition perplexityModel :: "string \<Rightarrow> string" where
  "perplexityModel modelName =
     (if modelName = ''mixture'' then ''mixtral-8x7b-instruct''
      else if modelName = ''mistral'' then ''mistral-7b-instruct''
      else if modelName = ''perplexity'' then ''pplx-70b-online''
      else ''llama-2-70b-chat'')"

definition lift_backend :: "string option \<Rightarrow> error + string" where
  "lift_backend r = (case r of None \<Rightarrow> Inl BackendFailure | Some text \<Rightarrow> Inr text)"

definition getModelResponse ::
  "collaborators \<Rightarrow> string \<Rightarrow> string \<Rightarrow> call list \<times> (error + string)" where
  "getModelResponse env modelName prompt =
     (if modelName = ''gpt'' \<or> modelName = ''gpt4'' then
        (let tier = (if modelName = ''gpt4'' then Some ''gpt-4'' else None)
         in ([HostedCall tier prompt], lift_backend (llm_invoke env tier prompt)))
      else if modelName = ''local mistral'' \<or> modelName = ''local llama'' then
        (let ollamaModel = (if modelName = ''local mistral'' then ''mistral'' else ''llama2'')
         in ([LocalCall ollamaModel prompt], lift_backend (ollama_invoke env ollamaModel prompt)))
      else if modelName = ''mixture'' \<or> modelName = ''mistral''
              \<or> modelName = ''perplexity'' \<or> modelName = ''llama'' then
        ([AggregatorCall (perplexityModel modelName) prompt],
         lift_backend (axios_post env (perplexityModel modelName) prompt))
      else ([], Inl (Error (''Unsupported model: '' @ modelName))))"

definition createAudio ::
  "collaborators \<Rightarrow> string \<Rightarrow> VoiceType \<Rightarrow> call list \<times> (error + string)" where
  "createAudio env fullMessage voice =
     ([SpeechCall fullMessage voice],
      (case speech_create env fullMessage voice of
         None \<Rightarrow> Inl (Error ''Failed to create audio'')
       | Some base64 \<Rightarrow> Inr base64))"

subsection \<open>The handler\<close>

record ResponseData =
  data :: string
  contentType :: string
  model :: string

text \<open>
  What the handler has done when it settles: it has written a status and a JSON body to
  the response object, or it has written nothing and thrown.
\<close>

datatype outcome =
    Responded nat ResponseData
  | Thrown error

definition instruction :: string where
  "instruction = ''Be precise and concise, never respond in more than 1-2 sentences! ''"

definition build_prompt :: "string \<Rightarrow> string" where
  "build_prompt message = instruction @ join_sp (drop 1 (split_sp (toLowerCase message)))"

definition introMessage :: "string \<Rightarrow> string" where
  "introMessage modelName = capitalise modelName @ '' here, ''"

definition select_voice :: "string \<Rightarrow> VoiceType" where
  "select_voice modelName = (if str_includes modelName ''local'' then Fable else Echo)"

definition POST :: "collaborators \<Rightarrow> json \<Rightarrow> call list \<times> outcome" where
  "POST env body =
     (case requestSchema body of
        Inl e \<Rightarrow> ([], Thrown (Error ''Failed to process request''))
      | Inr (message, modelName) \<Rightarrow>
          (let prompt = build_prompt message in
           case getModelResponse env modelName prompt of
             (calls, Inl e) \<Rightarrow> (calls, Thrown (Error ''Failed to process request''))
           | (calls, Inr gptMessage) \<Rightarrow>
               (let fullMessage = introMessage modelName @ gptMessage in
                case createAudio env fullMessage (select_voice modelName) of
                  (calls', Inl e) \<Rightarrow> (calls @ calls', Thrown (Error ''Failed to process request''))
                | (calls', Inr base64Audio) \<Rightarrow>
                    (calls @ calls',
                     Responded 200 \<lparr>data = base64Audio, contentType = ''audio/mp3'',
                                    model = modelName\<rparr>))))"

subsection \<open>The route as the client sees it\<close>



section \<open>The turn controller (the page component)\<close>

subsection \<open>Keyword detection and the request sent\<close>

definition modelKeywords :: "string list" where
  "modelKeywords =
     [''gpt4'', ''gpt'', ''perplexity'', ''local mistral'', ''local llama'',
      ''mixture'', ''mistral'', ''llama'']"

text \<open>The text the keywords are looked for in: \<^verbatim>\<open>words.slice(0, 3).join(" ").toLowerCase()\<close>.\<close>

definition keyword_window :: "string \<Rightarrow> string" where
  "keyword_window interimTranscript =
     toLowerCase (join_sp (take 3 (split_sp interimTranscript)))"

definition detectedModel :: "string \<Rightarrow> string option" where
  "detectedModel interimTranscript =
     find (\<lambda>keyword. str_includes (keyword_window interimTranscript) keyword) modelKeywords"

text \<open>
  \<^verbatim>\<open>JSON.stringify({ message, model: modelKeyword })\<close> as the dispatcher parses it: a
  property whose value is undefined is left out.
\<close>

definition request_body :: "string \<Rightarrow> string option \<Rightarrow> json" where
  "request_body message modelKeyword =
     JObject ((''message'', JString message) #
              (case modelKeyword of None \<Rightarrow> [] | Some m \<Rightarrow> [(''model'', JString m)]))"

subsection \<open>State and events\<close>

text \<open>
  The component's state, with the browser objects its callbacks hang on: the speech
  recognition objects created so far (the ref holds the last one), the pending silence
  timeout with the transcript its callback closes over, the requests awaiting an answer
  and the audio elements playing. The display-only state \<^verbatim>\<open>model\<close> and
  \<^verbatim>\<open>response\<close> is left out: no handler reads it to decide any of the fields kept.
\<close>

datatype recognition = Active | Stopping | Ended

record home_state =
  isRecording :: bool
  isPlaying :: bool
  transcript :: string
  recognitions :: "recognition list"
  silenceTimer :: "string option"
  requests :: "json list"
  audios :: "ResponseData list"

definition initial :: home_state where
  "initial = \<lparr>isRecording = False, isPlaying = False, transcript = [], recognitions = [],
               silenceTimer = None, requests = [], audios = []\<rparr>"

datatype reply = NetworkError | HttpReply nat ResponseData

definition response_ok :: "nat \<Rightarrow> bool" where
  "response_ok status = (200 \<le> status \<and> status \<le> 299)"

datatype event =
    ToggleClick
  | BubbleClick string
  | SpeechResult nat "string list"
  | SpeechEnd nat
  | TimerFires
  | ReplyArrives nat reply
  | AudioEnded nat

definition remove_nth :: "nat \<Rightarrow> 'a list \<Rightarrow> 'a list" where
  "remove_nth i xs = take i xs @ drop (Suc i) xs"

subsection \<open>Handlers\<close>

definition startRecording :: "home_state \<Rightarrow> home_state" where
  "startRecording s =
     s\<lparr>isRecording := True, transcript := [], recognitions := recognitions s @ [Active]\<rparr>"

text \<open>
  \<^verbatim>\<open>if (recognitionRef.current) recognitionRef.current.stop()\<close>: stopping an object
  that is stopping or has ended does nothing.
\<close>

definition stopRecording :: "home_state \<Rightarrow> home_state" where
  "stopRecording s =
     (case rev (recognitions s) of
        Active # earlier \<Rightarrow> s\<lparr>recognitions := rev (Stopping # earlier)\<rparr>
      | _ \<Rightarrow> s)"

text \<open>The synchronous part of \<^verbatim>\<open>sendToBackend\<close>: recording is stopped, then the request leaves.\<close>

definition sendToBackend :: "string \<Rightarrow> string option \<Rightarrow> home_state \<Rightarrow> home_state" where
  "sendToBackend message modelKeyword s =
     (let s' = stopRecording s
      in s'\<lparr>requests := requests s' @ [request_body message modelKeyword]\<rparr>)"

text \<open>The rest of \<^verbatim>\<open>sendToBackend\<close>, run when the request settles.\<close>

definition reply_arrives :: "reply \<Rightarrow> home_state \<Rightarrow> home_state" where
  "reply_arrives r s =
     (case r of
        NetworkError \<Rightarrow> s
      | HttpReply status d \<Rightarrow>
          (if \<not> response_ok status then s
           else if data d \<noteq> [] \<and> contentType d = ''audio/mp3''
           then s\<lparr>isPlaying := True, audios := audios s @ [d]\<rparr>
           else s))"

text \<open>\<^verbatim>\<open>audio.onended\<close>\<close>

definition audio_onended :: "home_state \<Rightarrow> home_state" where
  "audio_onended s = startRecording (s\<lparr>isPlaying := False\<rparr>)"

text \<open>
  \<^verbatim>\<open>handleResult\<close>, given the transcripts of the results from \<^verbatim>\<open>resultIndex\<close> on: the
  pending timeout, if any, is cleared and a new one is set, whose callback closes over
  the transcript of this event.
\<close>

definition handleResult :: "string list \<Rightarrow> home_state \<Rightarrow> home_state" where
  "handleResult results s =
     (let interimTranscript = concat results
      in s\<lparr>transcript := interimTranscript, silenceTimer := Some interimTranscript\<rparr>)"

text \<open>The callback of the silence timeout.\<close>

definition silence_elapsed :: "string \<Rightarrow> home_state \<Rightarrow> home_state" where
  "silence_elapsed interimTranscript s =
     (sendToBackend interimTranscript (detectedModel interimTranscript)
        (s\<lparr>silenceTimer := None\<rparr>))\<lparr>transcript := []\<rparr>"

text \<open>\<^verbatim>\<open>onend\<close> of a recognition object.\<close>

definition recognition_onend :: "home_state \<Rightarrow> home_state" where
  "recognition_onend s = s\<lparr>isRecording := False, silenceTimer := None\<rparr>"

definition handleToggleRecording :: "home_state \<Rightarrow> home_state" where
  "handleToggleRecording s =
     (if \<not> isRecording s \<and> \<not> isPlaying s then startRecording s
      else if isRecording s then sendToBackend (transcript s) None (stopRecording s)
      else s)"

text \<open>\<^verbatim>\<open>onClick\<close> of a model bubble.\<close>

definition bubble_onClick :: "string \<Rightarrow> home_state \<Rightarrow> home_state" where
  "bubble_onClick m s = sendToBackend (''Use '' @ m @ '' model'') (Some m) s"

subsection \<open>One event at a time\<close>

text \<open>
  \<open>step e s\<close> is the state after the handler of \<open>e\<close> has run, \<open>None\<close> when \<open>e\<close> cannot
  occur in \<open>s\<close>: a recognition object delivers results and its end only while it is
  active or stopping, the timeout fires only while pending, and only a request in
  flight settles.
\<close>

definition step :: "event \<Rightarrow> home_state \<Rightarrow> home_state option" where
  "step e s =
     (case e of
        ToggleClick \<Rightarrow> Some (handleToggleRecording s)
      | BubbleClick m \<Rightarrow> Some (bubble_onClick m s)
      | SpeechResult i results \<Rightarrow>
          (if i < length (recognitions s) \<and> recognitions s ! i \<noteq> Ended
           then Some (handleResult results s) else None)
      | SpeechEnd i \<Rightarrow>
          (if i < length (recognitions s) \<and> recognitions s ! i \<noteq> Ended
           then Some (recognition_onend (s\<lparr>recognitions := (recognitions s)[i := Ended]\<rparr>))
           else None)
      | TimerFires \<Rightarrow>
          (case silenceTimer s of
             None \<Rightarrow> None
           | Some interimTranscript \<Rightarrow> Some (silence_elapsed interimTranscript s))
      | ReplyArrives i r \<Rightarrow>
          (if i < length (requests s)
           then Some (reply_arrives r (s\<lparr>requests := remove_nth i (requests s)\<rparr>))
           else None)
      | AudioEnded i \<Rightarrow>
          (if i < length (audios s)
           then Some (audio_onended (s\<lparr>audios := remove_nth i (audios s)\<rparr>))
           else None))"

fun run :: "event list \<Rightarrow> home_state \<Rightarrow> home_state option" where
  "run [] s = Some s"
| "run (e # es) s = (case step e s of None \<Rightarrow> None | Some s' \<Rightarrow> run es s')"

subsection \<open>Reading a call, and collaborators that always answer\<close>

definition call_text :: "call \<Rightarrow> string" where
  "call_text c =
     (case c of
        HostedCall _ prompt \<Rightarrow> prompt
      | LocalCall _ prompt \<Rightarrow> prompt
      | AggregatorCall _ prompt \<Rightarrow> prompt
      | SpeechCall input _ \<Rightarrow> input)"

definition answering :: collaborators where
  "answering =
     \<lparr>llm_invoke = (\<lambda>tier prompt. Some ''ok''),
      ollama_invoke = (\<lambda>name prompt. Some ''ok''),
      axios_post = (\<lambda>name prompt. Some ''ok''),
      speech_create = (\<lambda>input voice. Some ''QUJD'')\<rparr>"

subsection \<open>Phases of a turn\<close>








section \<open>Facts about splitting and joining\<close>

lemma split_sp_nonempty: "split_sp s \<noteq> []"
  by (induction s) (auto split: list.splits)

lemma join_sp_Cons: "ws \<noteq> [] \<Longrightarrow> join_sp (w # ws) = w @ CHR '' '' # join_sp ws"
  by (cases ws) auto

lemma join_sp_split_sp: "join_sp (split_sp s) = s"
proof (induction s)
  case Nil
  then show ?case by simp
next
  case (Cons c cs)
  obtain w ws where ws: "split_sp cs = w # ws"
    using split_sp_nonempty [of cs] by (cases "split_sp cs") auto
  show ?case
  proof (cases "c = CHR '' ''")
    case True
    then show ?thesis using Cons split_sp_nonempty [of cs] by (simp add: join_sp_Cons)
  next
    case False
    then show ?thesis using Cons ws by (cases ws) auto
  qed
qed

lemma strip_first_token:
  "join_sp (drop 1 (split_sp s)) = drop (Suc (length (takeWhile (\<lambda>c. c \<noteq> CHR '' '') s))) s"
proof (induction s)
  case Nil
  then show ?case by simp
next
  case (Cons c cs)
  obtain w ws where ws: "split_sp cs = w # ws"
    using split_sp_nonempty [of cs] by (cases "split_sp cs") auto
  show ?case
  proof (cases "c = CHR '' ''")
    case True
    then show ?thesis by (simp add: join_sp_split_sp)
  next
    case False
    then show ?thesis using Cons ws by simp
  qed
qed

lemma split_sp_word: "CHR '' '' \<notin> set w \<Longrightarrow> split_sp w = [w]"
  by (induction w) auto

lemma split_sp_word_append:
  "CHR '' '' \<notin> set w \<Longrightarrow> split_sp (w @ CHR '' '' # rest) = w # split_sp rest"
  by (induction w) auto

lemma split_sp_join_sp:
  "ws \<noteq> [] \<Longrightarrow> \<forall>w\<in>set ws. CHR '' '' \<notin> set w \<Longrightarrow> split_sp (join_sp ws) = ws"
proof (induction ws rule: join_sp.induct)
  case 1
  then show ?case by simp
next
  case (2 w)
  then show ?case by (simp add: split_sp_word)
next
  case (3 w v ws)
  then show ?case by (simp add: split_sp_word_append)
qed

lemma lower_char_space: "(lower_char c = CHR '' '') = (c = CHR '' '')"
  by (simp add: lower_char_def)

lemma lower_char_cases:
  "lower_char c = c \<or>
   lower_char c \<in> set (''abcdefghijklmnopqrstuvwxyz'' @ [CHR 0xE0, CHR 0xE1, CHR 0xE2, CHR 0xE3,
        CHR 0xE4, CHR 0xE5, CHR 0xE6, CHR 0xE7, CHR 0xE8, CHR 0xE9, CHR 0xEA, CHR 0xEB,
        CHR 0xEC, CHR 0xED, CHR 0xEE, CHR 0xEF, CHR 0xF0, CHR 0xF1, CHR 0xF2, CHR 0xF3,
        CHR 0xF4, CHR 0xF5, CHR 0xF6, CHR 0xF8, CHR 0xF9, CHR 0xFA, CHR 0xFB, CHR 0xFC,
        CHR 0xFD, CHR 0xFE])"
proof (cases "map_of (zip (''ABCDEFGHIJKLMNOPQRSTUVWXYZ'' @ [CHR 0xC0, CHR 0xC1, CHR 0xC2, CHR 0xC3,
                          CHR 0xC4, CHR 0xC5, CHR 0xC6, CHR 0xC7, CHR 0xC8, CHR 0xC9, CHR 0xCA, CHR 0xCB,
                          CHR 0xCC, CHR 0xCD, CHR 0xCE, CHR 0xCF, CHR 0xD0, CHR 0xD1, CHR 0xD2, CHR 0xD3,
                          CHR 0xD4, CHR 0xD5, CHR 0xD6, CHR 0xD8, CHR 0xD9, CHR 0xDA, CHR 0xDB, CHR 0xDC,
                          CHR 0xDD, CHR 0xDE])
                          (''abcdefghijklmnopqrstuvwxyz'' @ [CHR 0xE0, CHR 0xE1, CHR 0xE2, CHR 0xE3,
                          CHR 0xE4, CHR 0xE5, CHR 0xE6, CHR 0xE7, CHR 0xE8, CHR 0xE9, CHR 0xEA, CHR 0xEB,
                          CHR 0xEC, CHR 0xED, CHR 0xEE, CHR 0xEF, CHR 0xF0, CHR 0xF1, CHR 0xF2, CHR 0xF3,
                          CHR 0xF4, CHR 0xF5, CHR 0xF6, CHR 0xF8, CHR 0xF9, CHR 0xFA, CHR 0xFB, CHR 0xFC,
                          CHR 0xFD, CHR 0xFE])) c")
  case None
  then show ?thesis by (simp only: lower_char_def option.case simp_thms)
next
  case (Some d)
  from map_of_SomeD [OF Some] have "d \<in> set (''abcdefghijklmnopqrstuvwxyz'' @ [CHR 0xE0, CHR 0xE1, CHR 0xE2, CHR 0xE3,
        CHR 0xE4, CHR 0xE5, CHR 0xE6, CHR 0xE7, CHR 0xE8, CHR 0xE9, CHR 0xEA, CHR 0xEB,
        CHR 0xEC, CHR 0xED, CHR 0xEE, CHR 0xEF, CHR 0xF0, CHR 0xF1, CHR 0xF2, CHR 0xF3,
        CHR 0xF4, CHR 0xF5, CHR 0xF6, CHR 0xF8, CHR 0xF9, CHR 0xFA, CHR 0xFB, CHR 0xFC,
        CHR 0xFD, CHR 0xFE])"
    by (rule set_zip_rightD)
  moreover have "lower_char c = d"
    by (simp only: lower_char_def Some option.case)
  ultimately show ?thesis by blast
qed

lemma lower_char_small:
  "\<forall>d\<in>set (''abcdefghijklmnopqrstuvwxyz'' @ [CHR 0xE0, CHR 0xE1, CHR 0xE2, CHR 0xE3,
        CHR 0xE4, CHR 0xE5, CHR 0xE6, CHR 0xE7, CHR 0xE8, CHR 0xE9, CHR 0xEA, CHR 0xEB,
        CHR 0xEC, CHR 0xED, CHR 0xEE, CHR 0xEF, CHR 0xF0, CHR 0xF1, CHR 0xF2, CHR 0xF3,
        CHR 0xF4, CHR 0xF5, CHR 0xF6, CHR 0xF8, CHR 0xF9, CHR 0xFA, CHR 0xFB, CHR 0xFC,
        CHR 0xFD, CHR 0xFE]).
     lower_char d = d"
  by (simp add: lower_char_def)

lemma lower_char_idem: "lower_char (lower_char c) = lower_char c"
  using lower_char_cases [of c] lower_char_small by metis

text \<open>Lowercasing of the characters that occur in the examples.\<close>

lemma lower_char_lits:
  "lower_char CHR ''A'' = CHR ''a''" "lower_char CHR ''B'' = CHR ''b''"
  "lower_char CHR ''C'' = CHR ''c''" "lower_char CHR ''D'' = CHR ''d''"
  "lower_char CHR ''E'' = CHR ''e''" "lower_char CHR ''F'' = CHR ''f''"
  "lower_char CHR ''G'' = CHR ''g''" "lower_char CHR ''H'' = CHR ''h''"
  "lower_char CHR ''I'' = CHR ''i''" "lower_char CHR ''J'' = CHR ''j''"
  "lower_char CHR ''K'' = CHR ''k''" "lower_char CHR ''L'' = CHR ''l''"
  "lower_char CHR ''M'' = CHR ''m''" "lower_char CHR ''N'' = CHR ''n''"
  "lower_char CHR ''O'' = CHR ''o''" "lower_char CHR ''P'' = CHR ''p''"
  "lower_char CHR ''Q'' = CHR ''q''" "lower_char CHR ''R'' = CHR ''r''"
  "lower_char CHR ''S'' = CHR ''s''" "lower_char CHR ''T'' = CHR ''t''"
  "lower_char CHR ''U'' = CHR ''u''" "lower_char CHR ''V'' = CHR ''v''"
  "lower_char CHR ''W'' = CHR ''w''" "lower_char CHR ''X'' = CHR ''x''"
  "lower_char CHR ''Y'' = CHR ''y''" "lower_char CHR ''Z'' = CHR ''z''"
  "lower_char CHR ''a'' = CHR ''a''" "lower_char CHR ''b'' = CHR ''b''"
  "lower_char CHR ''c'' = CHR ''c''" "lower_char CHR ''d'' = CHR ''d''"
  "lower_char CHR ''e'' = CHR ''e''" "lower_char CHR ''f'' = CHR ''f''"
  "lower_char CHR ''g'' = CHR ''g''" "lower_char CHR ''h'' = CHR ''h''"
  "lower_char CHR ''i'' = CHR ''i''" "lower_char CHR ''j'' = CHR ''j''"
  "lower_char CHR ''k'' = CHR ''k''" "lower_char CHR ''l'' = CHR ''l''"
  "lower_char CHR ''m'' = CHR ''m''" "lower_char CHR ''n'' = CHR ''n''"
  "lower_char CHR ''o'' = CHR ''o''" "lower_char CHR ''p'' = CHR ''p''"
  "lower_char CHR ''q'' = CHR ''q''" "lower_char CHR ''r'' = CHR ''r''"
  "lower_char CHR ''s'' = CHR ''s''" "lower_char CHR ''t'' = CHR ''t''"
  "lower_char CHR ''u'' = CHR ''u''" "lower_char CHR ''v'' = CHR ''v''"
  "lower_char CHR ''w'' = CHR ''w''" "lower_char CHR ''x'' = CHR ''x''"
  "lower_char CHR ''y'' = CHR ''y''" "lower_char CHR ''z'' = CHR ''z''"
  "lower_char CHR ''0'' = CHR ''0''" "lower_char CHR ''1'' = CHR ''1''"
  "lower_char CHR ''2'' = CHR ''2''" "lower_char CHR ''3'' = CHR ''3''"
  "lower_char CHR ''4'' = CHR ''4''" "lower_char CHR ''5'' = CHR ''5''"
  "lower_char CHR ''6'' = CHR ''6''" "lower_char CHR ''7'' = CHR ''7''"
  "lower_char CHR ''8'' = CHR ''8''" "lower_char CHR ''9'' = CHR ''9''"
  "lower_char CHR '' '' = CHR '' ''" "lower_char CHR '','' = CHR '',''"
  "lower_char (CHR 0xC9) = CHR 0xE9"
  by (simp_all add: lower_char_def)

lemma split_sp_toLowerCase: "split_sp (toLowerCase s) = map toLowerCase (split_sp s)"
proof (induction s)
  case Nil
  then show ?case by (simp add: toLowerCase_def)
next
  case (Cons c cs)
  obtain w ws where ws: "split_sp cs = w # ws"
    using split_sp_nonempty [of cs] by (cases "split_sp cs") auto
  show ?case using Cons ws lower_char_space [of c]
    by (auto simp: toLowerCase_def)
qed

lemma toLowerCase_join_sp: "toLowerCase (join_sp ws) = join_sp (map toLowerCase ws)"
  by (induction ws rule: join_sp.induct) (auto simp: toLowerCase_def lower_char_lits)

lemma toLowerCase_idem: "toLowerCase (toLowerCase s) = toLowerCase s"
  by (simp add: toLowerCase_def lower_char_idem)

lemma toLowerCase_no_space: "CHR '' '' \<notin> set w \<Longrightarrow> CHR '' '' \<notin> set (toLowerCase w)"
proof
  assume a: "CHR '' '' \<notin> set w" and b: "CHR '' '' \<in> set (toLowerCase w)"
  from b obtain c where c: "c \<in> set w" and "lower_char c = CHR '' ''"
    unfolding toLowerCase_def by (metis imageE list.set_map)
  then have "c = CHR '' ''" by (simp add: lower_char_space)
  with a c show False by simp
qed

section \<open>Facts about the handler\<close>

lemma getModelResponse_known:
  assumes "modelName \<in> set modelKeywords"
  shows "\<exists>backend r. getModelResponse env modelName prompt = ([backend], r)
           \<and> is_backend_call backend \<and> call_text backend = prompt"
  using assms
  by (auto simp: getModelResponse_def modelKeywords_def Let_def is_backend_call_def call_text_def)

lemma getModelResponse_unknown:
  assumes "modelName \<notin> set modelKeywords"
  shows "getModelResponse env modelName prompt = ([], Inl (Error (''Unsupported model: '' @ modelName)))"
  using assms by (simp add: getModelResponse_def modelKeywords_def)

lemma POST_invalid:
  assumes "requestSchema body = Inl e"
  shows "POST env body = ([], Thrown (Error ''Failed to process request''))"
  using assms by (simp add: POST_def)

lemma POST_backend_fails:
  assumes "requestSchema body = Inr (message, modelName)"
    and "getModelResponse env modelName (build_prompt message) = (calls, Inl e)"
  shows "POST env body = (calls, Thrown (Error ''Failed to process request''))"
  using assms by (simp add: POST_def)


lemma POST_succeeds:
  assumes "requestSchema body = Inr (message, modelName)"
    and "getModelResponse env modelName (build_prompt message) = (calls, Inr gptMessage)"
    and "speech_create env (introMessage modelName @ gptMessage) (select_voice modelName) = Some base64Audio"
  shows "POST env body =
           (calls @ [SpeechCall (introMessage modelName @ gptMessage) (select_voice modelName)],
            Responded 200 \<lparr>data = base64Audio, contentType = ''audio/mp3'', model = modelName\<rparr>)"
  using assms by (simp add: POST_def createAudio_def)

lemma POST_first_call:
  assumes "requestSchema body = Inr (message, modelName)"
    and "getModelResponse env modelName (build_prompt message) = (calls, r)"
  shows "take (length calls) (fst (POST env body)) = calls"
  using assms
  by (cases r; cases "speech_create env (introMessage modelName @ projr r) (select_voice modelName)")
     (simp_all add: POST_def createAudio_def)

section \<open>Facts about keyword detection\<close>

lemma split_sp_pieces: "w \<in> set (split_sp s) \<Longrightarrow> CHR '' '' \<notin> set w"
proof (induction s arbitrary: w)
  case Nil
  then show ?case by simp
next
  case (Cons c cs)
  obtain v vs where vs: "split_sp cs = v # vs"
    using split_sp_nonempty [of cs] by (cases "split_sp cs") auto
  show ?case
  proof (cases "c = CHR '' ''")
    case True
    with Cons show ?thesis by auto
  next
    case False
    with Cons.prems vs have "w = c # v \<or> w \<in> set vs" by simp
    then show ?thesis
    proof
      assume "w = c # v"
      moreover have "CHR '' '' \<notin> set v" using Cons.IH [of v] vs by simp
      ultimately show ?thesis using False by auto
    next
      assume "w \<in> set vs"
      then show ?thesis using Cons.IH [of w] vs by simp
    qed
  qed
qed

lemma split_sp_cut: "split_sp (join_sp (take 3 (split_sp t))) = take 3 (split_sp t)"
proof (rule split_sp_join_sp)
  show "take 3 (split_sp t) \<noteq> []"
    using split_sp_nonempty [of t] by simp
  show "\<forall>w\<in>set (take 3 (split_sp t)). CHR '' '' \<notin> set w"
    using split_sp_pieces by (blast dest: in_set_takeD)
qed

lemma keyword_window_cut: "keyword_window (join_sp (take 3 (split_sp t))) = keyword_window t"
  by (simp add: keyword_window_def split_sp_cut)

lemma keyword_window_lower: "keyword_window (toLowerCase t) = keyword_window t"
  by (simp add: keyword_window_def split_sp_toLowerCase take_map toLowerCase_join_sp [symmetric]
        toLowerCase_idem)

lemma detectedModel_first:
  assumes "detectedModel t = Some k"
  shows "\<exists>i<length modelKeywords. modelKeywords ! i = k \<and> str_includes (keyword_window t) k
           \<and> (\<forall>j<i. \<not> str_includes (keyword_window t) (modelKeywords ! j))"
  using assms unfolding detectedModel_def find_Some_iff by blast

lemma detectedModel_None:
  "(detectedModel t = None) = (\<forall>k\<in>set modelKeywords. \<not> str_includes (keyword_window t) k)"
  unfolding detectedModel_def find_None_iff by blast

lemma specific_pairs_check:
  "list_all (\<lambda>k. list_all (\<lambda>k'. k' = k \<or> \<not> str_includes k k'
       \<or> (k, k') \<in> set [(''gpt4'', ''gpt''), (''local mistral'', ''mistral''),
                           (''local llama'', ''llama'')]) modelKeywords) modelKeywords"
  by code_simp

lemma specific_pairs:
  assumes "k \<in> set modelKeywords" and "k' \<in> set modelKeywords" and "k' \<noteq> k"
    and "str_includes k k'"
  shows "(k, k') \<in> set [(''gpt4'', ''gpt''), (''local mistral'', ''mistral''),
                         (''local llama'', ''llama'')]"
  using assms specific_pairs_check unfolding list_all_iff by blast

lemma specific_blocks_broader:
  assumes "(k, k') \<in> set [(''gpt4'', ''gpt''), (''local mistral'', ''mistral''),
                           (''local llama'', ''llama'')]"
    and "str_includes (keyword_window t) k"
  shows "detectedModel t \<noteq> Some k'"
proof -
  have 1: "detectedModel t \<noteq> Some ''gpt''" if "str_includes (keyword_window t) ''gpt4''"
    using that by (simp add: detectedModel_def modelKeywords_def)
  have 2: "detectedModel t \<noteq> Some ''mistral''" if "str_includes (keyword_window t) ''local mistral''"
    using that by (simp add: detectedModel_def modelKeywords_def)
  have 3: "detectedModel t \<noteq> Some ''llama''" if "str_includes (keyword_window t) ''local llama''"
    using that by (simp add: detectedModel_def modelKeywords_def)
  from assms 1 2 3 show ?thesis by auto
qed

lemma str_includes_iff: "str_includes s k = (\<exists>pre post. s = pre @ k @ post)"
proof (induction s)
  case Nil
  then show ?case by simp
next
  case (Cons c cs)
  have here: "(take (length k) (c # cs) = k) = (\<exists>post. c # cs = k @ post)"
  proof
    assume "take (length k) (c # cs) = k"
    then have "c # cs = k @ drop (length k) (c # cs)"
      by (metis append_take_drop_id)
    then show "\<exists>post. c # cs = k @ post" ..
  next
    assume "\<exists>post. c # cs = k @ post"
    then show "take (length k) (c # cs) = k" by auto
  qed
  have "(\<exists>pre post. c # cs = pre @ k @ post)
          = ((\<exists>post. c # cs = k @ post) \<or> (\<exists>pre post. cs = pre @ k @ post))"
  proof
    assume "\<exists>pre post. c # cs = pre @ k @ post"
    then obtain pre post where p: "c # cs = pre @ k @ post" by blast
    show "(\<exists>post. c # cs = k @ post) \<or> (\<exists>pre post. cs = pre @ k @ post)"
    proof (cases pre)
      case Nil
      with p show ?thesis by auto
    next
      case (Cons a pre')
      with p have "cs = pre' @ k @ post" by simp
      then show ?thesis by blast
    qed
  next
    assume "(\<exists>post. c # cs = k @ post) \<or> (\<exists>pre post. cs = pre @ k @ post)"
    then show "\<exists>pre post. c # cs = pre @ k @ post"
    proof
      assume "\<exists>post. c # cs = k @ post"
      then obtain post where "c # cs = [] @ k @ post" by auto
      then show ?thesis by blast
    next
      assume "\<exists>pre post. cs = pre @ k @ post"
      then obtain pre post where "c # cs = (c # pre) @ k @ post" by auto
      then show ?thesis by blast
    qed
  qed
  with here Cons show ?case by simp
qed

lemma requests_stopRecording: "requests (stopRecording s) = requests s"
  by (simp add: stopRecording_def split: list.splits recognition.splits)

lemma requests_sendToBackend:
  "requests (sendToBackend message modelKeyword s) = requests s @ [request_body message modelKeyword]"
  by (simp add: sendToBackend_def Let_def requests_stopRecording)

section \<open>The prompt loses one leading piece\<close>

text \<open>
  C10, as the claim states it, fails: what is removed is the first piece \<^verbatim>\<open>split(' ')\<close>
  gives, not the first word. The message " tell me a joke" consists of the words tell,
  me, a, joke; its first piece is empty, and the prompt keeps all four words.
\<close>

theorem leading_space_keeps_every_word:
  "filter (\<lambda>w. w \<noteq> []) (split_sp '' tell me a joke'') = [''tell'', ''me'', ''a'', ''joke'']
   \<and> build_prompt '' tell me a joke'' = instruction @ ''tell me a joke''"
  by (simp add: build_prompt_def toLowerCase_def lower_char_lits)

text \<open>
  C10, amended. For every request the dispatcher removes from the lowercased message
  exactly its first piece, that is everything up to and including the first space
  (all of it when there is no space), whatever the model and whether or not the message
  starts with a keyword; this holds for any text the lowercasing returns. For a message
  of space-free words joined by single spaces that is the first word, so a message
  without a keyword loses its first word and after "local mistral" the word "mistral"
  stays in the prompt; a message that begins with a space loses only that space. The
  prompt so built is what the backend of any known model is called with.
\<close>

theorem one_leading_piece_removed:
  "join_sp (drop 1 (split_sp lowered))
     = drop (Suc (length (takeWhile (\<lambda>c. c \<noteq> CHR '' '') lowered))) lowered
   \<and> build_prompt message =
       instruction @ drop (Suc (length (takeWhile (\<lambda>c. c \<noteq> CHR '' '') (toLowerCase message))))
                          (toLowerCase message)
   \<and> (split_sp (toLowerCase message) = piece # pieces \<longrightarrow>
        build_prompt message = instruction @ join_sp pieces)
   \<and> (ws \<noteq> [] \<and> (\<forall>w\<in>set ws. CHR '' '' \<notin> set w) \<longrightarrow>
        build_prompt (join_sp ws) = instruction @ join_sp (map toLowerCase (drop 1 ws)))
   \<and> build_prompt (CHR '' '' # message) = instruction @ toLowerCase message
   \<and> (requestSchema body = Inr (message, modelName) \<and> modelName \<in> set modelKeywords \<longrightarrow>
        (\<exists>backend. take 1 (fst (POST env body)) = [backend] \<and> is_backend_call backend
                   \<and> call_text backend = build_prompt message))
   \<and> build_prompt ''Tell Me A JOKE'' = instruction @ ''me a joke''
   \<and> build_prompt ''local mistral tell me a joke'' = instruction @ ''mistral tell me a joke''
   \<and> build_prompt (''say '' @ [CHR 0xC9] @ ''COLE'') = instruction @ [CHR 0xE9] @ ''cole''"
proof -
  have strip: "join_sp (drop 1 (split_sp lowered))
     = drop (Suc (length (takeWhile (\<lambda>c. c \<noteq> CHR '' '') lowered))) lowered"
    by (rule strip_first_token)
  have general: "build_prompt message =
      instruction @ drop (Suc (length (takeWhile (\<lambda>c. c \<noteq> CHR '' '') (toLowerCase message))))
                         (toLowerCase message)"
    by (simp only: build_prompt_def strip_first_token)
  have pieces: "build_prompt message = instruction @ join_sp pieces"
    if "split_sp (toLowerCase message) = piece # pieces"
    using that by (simp add: build_prompt_def)
  have words: "build_prompt (join_sp ws) = instruction @ join_sp (map toLowerCase (drop 1 ws))"
    if "ws \<noteq> []" and "\<forall>w\<in>set ws. CHR '' '' \<notin> set w"
  proof -
    have "map toLowerCase ws \<noteq> []"
      using that(1) by simp
    moreover have "\<forall>w\<in>set (map toLowerCase ws). CHR '' '' \<notin> set w"
      using that(2) by (simp add: toLowerCase_no_space)
    ultimately have "split_sp (join_sp (map toLowerCase ws)) = map toLowerCase ws"
      by (rule split_sp_join_sp)
    then show ?thesis
      by (simp add: build_prompt_def toLowerCase_join_sp drop_map)
  qed
  have space: "build_prompt (CHR '' '' # message) = instruction @ toLowerCase message"
  proof -
    have "toLowerCase (CHR '' '' # message) = CHR '' '' # toLowerCase message"
      by (simp add: toLowerCase_def lower_char_space [of "CHR '' ''", simplified])
    then show ?thesis
      by (simp add: build_prompt_def join_sp_split_sp)
  qed
  have sent: "\<exists>backend. take 1 (fst (POST env body)) = [backend] \<and> is_backend_call backend
                \<and> call_text backend = build_prompt message"
    if v: "requestSchema body = Inr (message, modelName)" and k: "modelName \<in> set modelKeywords"
  proof -
    from getModelResponse_known [OF k]
    obtain backend r where g: "getModelResponse env modelName (build_prompt message) = ([backend], r)"
      and b: "is_backend_call backend" "call_text backend = build_prompt message"
      by blast
    from POST_first_call [OF v g] b show ?thesis by auto
  qed
  have ex1: "build_prompt ''Tell Me A JOKE'' = instruction @ ''me a joke''"
    by (simp add: build_prompt_def toLowerCase_def lower_char_lits)
  have ex2: "build_prompt ''local mistral tell me a joke'' = instruction @ ''mistral tell me a joke''"
    by (simp add: build_prompt_def toLowerCase_def lower_char_lits)
  have ex3: "build_prompt (''say '' @ [CHR 0xC9] @ ''COLE'') = instruction @ [CHR 0xE9] @ ''cole''"
    by (simp add: build_prompt_def toLowerCase_def lower_char_lits)
  from strip general pieces words space sent ex1 ex2 ex3 show ?thesis by blast
qed

theorem one_leading_piece_removed_witness:
  "build_prompt ''Explain Entropy BRIEFLY'' = instruction @ ''entropy briefly''
   \<and> build_prompt (join_sp [''Explain'', ''Entropy'', ''BRIEFLY'']) = instruction @ ''entropy briefly''
   \<and> (\<exists>backend. take 1 (fst (POST answering
          (request_body ''local mistral tell me a joke'' (Some ''local mistral'')))) = [backend]
        \<and> is_backend_call backend
        \<and> call_text backend = instruction @ ''mistral tell me a joke'')"
proof -
  let ?ws = "[''Explain'', ''Entropy'', ''BRIEFLY'']"
  have p: "split_sp (toLowerCase ''Explain Entropy BRIEFLY'') = ''explain'' # [''entropy'', ''briefly'']"
    by (simp add: toLowerCase_def lower_char_lits)
  have w: "?ws \<noteq> [] \<and> (\<forall>w\<in>set ?ws. CHR '' '' \<notin> set w)"
    by simp
  have r: "requestSchema (request_body ''local mistral tell me a joke'' (Some ''local mistral''))
             = Inr (''local mistral tell me a joke'', ''local mistral'')
           \<and> ''local mistral'' \<in> set modelKeywords"
    by (simp add: requestSchema_def request_body_def modelKeywords_def)
  have l: "join_sp (map toLowerCase (drop 1 ?ws)) = ''entropy briefly''"
    by (simp add: toLowerCase_def lower_char_lits)
  from p one_leading_piece_removed
           [of _ "''Explain Entropy BRIEFLY''" "''explain''" "[''entropy'', ''briefly'']"]
  have "build_prompt ''Explain Entropy BRIEFLY'' = instruction @ join_sp [''entropy'', ''briefly'']"
    by blast
  then have a: "build_prompt ''Explain Entropy BRIEFLY'' = instruction @ ''entropy briefly''"
    by simp
  note t = one_leading_piece_removed
         [of _ "''local mistral tell me a joke''" _ _ ?ws
             "request_body ''local mistral tell me a joke'' (Some ''local mistral'')"
             "''local mistral''" answering]
  from t w l have b: "build_prompt (join_sp ?ws) = instruction @ ''entropy briefly''"
    by simp
  from t r obtain backend where c:
    "take 1 (fst (POST answering
        (request_body ''local mistral tell me a joke'' (Some ''local mistral'')))) = [backend]"
    "is_backend_call backend"
    "call_text backend = build_prompt ''local mistral tell me a joke''"
    by blast
  from t have "build_prompt ''local mistral tell me a joke'' = instruction @ ''mistral tell me a joke''"
    by blast
  with a b c show ?thesis by auto
qed

section \<open>Failures of the dispatcher\<close>

text \<open>
  C2. A request whose body is not an object with a string \<^verbatim>\<open>message\<close> (the property is
  missing or is not a string), and a request whose model is outside the known set, makes
  the dispatcher call no collaborator at all: the list of calls is empty and the handler
  throws. The known set is the eight names of \<open>modelKeywords\<close>, which are the labels of
  the switch in \<^verbatim>\<open>getModelResponse\<close>.
\<close>

theorem no_backend_before_failure:
  "((\<forall>props message. body = JObject props \<longrightarrow> map_of props ''message'' \<noteq> Some (JString message)) \<longrightarrow>
      POST env body = ([], Thrown (Error ''Failed to process request'')))
   \<and> (requestSchema body = Inl e \<longrightarrow>
        POST env body = ([], Thrown (Error ''Failed to process request'')))
   \<and> (requestSchema body = Inr (message, modelName) \<and> modelName \<notin> set modelKeywords \<longrightarrow>
        POST env body = ([], Thrown (Error ''Failed to process request'')))"
proof -
  have shape: "POST env body = ([], Thrown (Error ''Failed to process request''))"
    if "\<forall>props message. body = JObject props \<longrightarrow> map_of props ''message'' \<noteq> Some (JString message)"
  proof -
    have "requestSchema body = Inl ZodError"
      using that by (auto simp: requestSchema_def split: json.splits option.splits)
    then show ?thesis by (rule POST_invalid)
  qed
  have unknown: "POST env body = ([], Thrown (Error ''Failed to process request''))"
    if "requestSchema body = Inr (message, modelName)" and "modelName \<notin> set modelKeywords"
    using that(1) getModelResponse_unknown [OF that(2)] by (rule POST_backend_fails)
  from shape unknown POST_invalid show ?thesis by blast
qed

theorem no_backend_before_failure_witness:
  "POST answering (JObject [(''model'', JString ''gpt'')])
     = ([], Thrown (Error ''Failed to process request''))
   \<and> POST answering (JObject [(''message'', JNumber 7)])
     = ([], Thrown (Error ''Failed to process request''))
   \<and> POST answering (request_body ''hello there'' (Some ''unknown-model''))
     = ([], Thrown (Error ''Failed to process request''))"
proof -
  have a: "\<forall>props message. JObject [(''model'', JString ''gpt'')] = JObject props \<longrightarrow>
             map_of props ''message'' \<noteq> Some (JString message)"
    by auto
  have b: "requestSchema (JObject [(''message'', JNumber 7)]) = Inl ZodError"
    by (simp add: requestSchema_def)
  have c: "requestSchema (request_body ''hello there'' (Some ''unknown-model''))
             = Inr (''hello there'', ''unknown-model'')
           \<and> ''unknown-model'' \<notin> set modelKeywords"
    by (simp add: requestSchema_def request_body_def modelKeywords_def)
  from a no_backend_before_failure [of "JObject [(''model'', JString ''gpt'')]" answering]
  have 1: "POST answering (JObject [(''model'', JString ''gpt'')])
             = ([], Thrown (Error ''Failed to process request''))"
    by blast
  from b no_backend_before_failure [of "JObject [(''message'', JNumber 7)]" answering ZodError]
  have 2: "POST answering (JObject [(''message'', JNumber 7)])
             = ([], Thrown (Error ''Failed to process request''))"
    by blast
  from c no_backend_before_failure
           [of "request_body ''hello there'' (Some ''unknown-model'')" answering _
               "''hello there''" "''unknown-model''"]
  have 3: "POST answering (request_body ''hello there'' (Some ''unknown-model''))
             = ([], Thrown (Error ''Failed to process request''))"
    by blast
  from 1 2 3 show ?thesis by simp
qed




section \<open>Successful turns\<close>

text \<open>
  C3. Whenever the dispatcher responds, the status is 200 and the \<^verbatim>\<open>model\<close> field of the
  response is one of the supported identifiers and equals the \<^verbatim>\<open>model\<close> property of the
  request, or \<^verbatim>\<open>gpt\<close> when the request has none. And it does respond: with collaborators
  that answer, a request naming any supported identifier gets a 200 response carrying
  that identifier, and a request without \<^verbatim>\<open>model\<close> gets one carrying \<^verbatim>\<open>gpt\<close>.
\<close>

theorem response_model_is_requested_model:
  "(POST env (JObject props) = (calls, Responded status r) \<longrightarrow>
      status = 200 \<and> model r \<in> set modelKeywords
      \<and> (case map_of props ''model'' of
            None \<Rightarrow> model r = ''gpt''
          | Some requested \<Rightarrow> requested = JString (model r)))
   \<and> ((\<forall>tier prompt. llm_invoke env tier prompt \<noteq> None)
        \<and> (\<forall>name prompt. ollama_invoke env name prompt \<noteq> None)
        \<and> (\<forall>name prompt. axios_post env name prompt \<noteq> None)
        \<and> (\<forall>input voice. speech_create env input voice \<noteq> None) \<longrightarrow>
        (\<forall>m\<in>set modelKeywords. \<exists>cs audio.
            POST env (request_body message (Some m))
              = (cs, Responded 200 \<lparr>data = audio, contentType = ''audio/mp3'', model = m\<rparr>))
        \<and> (\<exists>cs audio.
            POST env (request_body message None)
              = (cs, Responded 200 \<lparr>data = audio, contentType = ''audio/mp3'', model = ''gpt''\<rparr>)))"
proof -
  have echo: "status = 200 \<and> model r \<in> set modelKeywords
      \<and> (case map_of props ''model'' of
            None \<Rightarrow> model r = ''gpt''
          | Some requested \<Rightarrow> requested = JString (model r))"
    if p: "POST env (JObject props) = (calls, Responded status r)"
  proof -
    obtain message modelName where v: "requestSchema (JObject props) = Inr (message, modelName)"
      using p by (cases "requestSchema (JObject props)") (auto simp: POST_def)
    have known: "modelName \<in> set modelKeywords"
    proof (rule ccontr)
      assume "modelName \<notin> set modelKeywords"
      from POST_backend_fails [OF v getModelResponse_unknown [OF this]] p show False by simp
    qed
    have same: "status = 200 \<and> model r = modelName"
      using p v by (auto simp: POST_def createAudio_def Let_def split: sum.splits option.splits prod.splits)
    have req: "case map_of props ''model'' of
                 None \<Rightarrow> modelName = ''gpt''
               | Some requested \<Rightarrow> requested = JString modelName"
      using v by (auto simp: requestSchema_def split: option.splits json.splits)
    from known same req show ?thesis by (auto split: option.splits)
  qed
  have succeed: "\<exists>cs audio. POST env body
              = (cs, Responded 200 \<lparr>data = audio, contentType = ''audio/mp3'', model = m\<rparr>)"
    if v: "requestSchema body = Inr (message, m)" and k: "m \<in> set modelKeywords"
      and 1: "\<forall>tier prompt. llm_invoke env tier prompt \<noteq> None"
      and 2: "\<forall>name prompt. ollama_invoke env name prompt \<noteq> None"
      and 3: "\<forall>name prompt. axios_post env name prompt \<noteq> None"
      and 4: "\<forall>input voice. speech_create env input voice \<noteq> None" for body m
  proof -
    have "\<exists>cs x. getModelResponse env m (build_prompt message) = (cs, lift_backend (Some x))"
    proof -
      obtain a where a: "llm_invoke env (if m = ''gpt4'' then Some ''gpt-4'' else None)
                           (build_prompt message) = Some a"
        using 1 [rule_format, of "if m = ''gpt4'' then Some ''gpt-4'' else None" "build_prompt message"]
        by auto
      obtain b where b: "ollama_invoke env (if m = ''local mistral'' then ''mistral'' else ''llama2'')
                           (build_prompt message) = Some b"
        using 2 [rule_format, of "if m = ''local mistral'' then ''mistral'' else ''llama2''"
                   "build_prompt message"]
        by auto
      obtain c where c: "axios_post env (perplexityModel m) (build_prompt message) = Some c"
        using 3 [rule_format, of "perplexityModel m" "build_prompt message"] by auto
      from a b c
      have "getModelResponse env m (build_prompt message)
              = (fst (getModelResponse env m (build_prompt message)),
                 lift_backend (Some (if m = ''gpt'' \<or> m = ''gpt4'' then a
                                     else if m = ''local mistral'' \<or> m = ''local llama'' then b
                                     else c)))"
        using k by (auto simp: getModelResponse_def modelKeywords_def Let_def)
      then show ?thesis by blast
    qed
    then obtain cs reply where g: "getModelResponse env m (build_prompt message) = (cs, Inr reply)"
      by (auto simp: lift_backend_def)
    obtain audio where a: "speech_create env (introMessage m @ reply) (select_voice m) = Some audio"
      using 4 by blast
    from POST_succeeds [OF v g a] show ?thesis by blast
  qed
  have named: "requestSchema (request_body message (Some m)) = Inr (message, m)" for m
    by (simp add: requestSchema_def request_body_def)
  have omitted: "requestSchema (request_body message None) = Inr (message, ''gpt'')"
    by (simp add: requestSchema_def request_body_def)
  have gpt: "''gpt'' \<in> set modelKeywords"
    by (simp add: modelKeywords_def)
  from echo succeed [OF named] succeed [OF omitted gpt] show ?thesis by blast
qed

theorem response_model_is_requested_model_witness:
  "(\<exists>cs audio. POST answering (request_body ''tell me a joke'' (Some ''llama''))
      = (cs, Responded 200 \<lparr>data = audio, contentType = ''audio/mp3'', model = ''llama''\<rparr>))
   \<and> (\<exists>cs audio. POST answering (request_body ''tell me a joke'' None)
      = (cs, Responded 200 \<lparr>data = audio, contentType = ''audio/mp3'', model = ''gpt''\<rparr>))
   \<and> POST answering (JObject [(''message'', JString ''tell me a joke''), (''model'', JString ''llama'')])
      = ([AggregatorCall ''llama-2-70b-chat'' (build_prompt ''tell me a joke''),
          SpeechCall ''Llama here, ok'' Echo],
         Responded 200 \<lparr>data = ''QUJD'', contentType = ''audio/mp3'', model = ''llama''\<rparr>)
   \<and> ''llama'' \<in> set modelKeywords"
proof -
  let ?props = "[(''message'', JString ''tell me a joke''), (''model'', JString ''llama'')]"
  let ?calls = "[AggregatorCall ''llama-2-70b-chat'' (build_prompt ''tell me a joke''),
                 SpeechCall ''Llama here, ok'' Echo]"
  let ?r = "\<lparr>data = ''QUJD'', contentType = ''audio/mp3'', model = ''llama''\<rparr>"
  have a: "(\<forall>tier prompt. llm_invoke answering tier prompt \<noteq> None)
        \<and> (\<forall>name prompt. ollama_invoke answering name prompt \<noteq> None)
        \<and> (\<forall>name prompt. axios_post answering name prompt \<noteq> None)
        \<and> (\<forall>input voice. speech_create answering input voice \<noteq> None)"
    by (simp add: answering_def)
  have k: "''llama'' \<in> set modelKeywords"
    by (simp add: modelKeywords_def)
  have p: "POST answering (JObject ?props) = (?calls, Responded 200 ?r)"
    by (simp add: POST_def requestSchema_def getModelResponse_def createAudio_def
          lift_backend_def answering_def perplexityModel_def introMessage_def capitalise_def
          upper_char_def select_voice_def)
  from a k response_model_is_requested_model [of answering _ _ _ _ "''tell me a joke''"]
  have 1: "(\<exists>cs audio. POST answering (request_body ''tell me a joke'' (Some ''llama''))
      = (cs, Responded 200 \<lparr>data = audio, contentType = ''audio/mp3'', model = ''llama''\<rparr>))
   \<and> (\<exists>cs audio. POST answering (request_body ''tell me a joke'' None)
      = (cs, Responded 200 \<lparr>data = audio, contentType = ''audio/mp3'', model = ''gpt''\<rparr>))"
    by blast
  from p response_model_is_requested_model [of answering ?props ?calls 200 ?r]
  have 2: "model ?r \<in> set modelKeywords"
    by blast
  from 1 2 p show ?thesis by simp
qed

text \<open>
  C6. For the body \<^verbatim>\<open>{message: "gpt4 explain entropy", model: "gpt4"}\<close> the dispatcher
  drops the leading token and puts the fixed instruction in front of "explain entropy",
  calls the hosted adapter with the model name \<^verbatim>\<open>gpt-4\<close>, puts "Gpt4 here, " in front of
  the reply, has it spoken with the voice \<^verbatim>\<open>echo\<close> (the one for models that are not
  local), and responds 200 with the audio, content type \<^verbatim>\<open>audio/mp3\<close> and model \<^verbatim>\<open>gpt4\<close>.
\<close>

theorem gpt4_explain_entropy:
  assumes "llm_invoke env (Some ''gpt-4'')
             ''Be precise and concise, never respond in more than 1-2 sentences! explain entropy''
           = Some reply"
    and "speech_create env (''Gpt4 here, '' @ reply) Echo = Some audio"
  shows "POST env (JObject [(''message'', JString ''gpt4 explain entropy''), (''model'', JString ''gpt4'')])
         = ([HostedCall (Some ''gpt-4'')
               ''Be precise and concise, never respond in more than 1-2 sentences! explain entropy'',
             SpeechCall (''Gpt4 here, '' @ reply) Echo],
            Responded 200 \<lparr>data = audio, contentType = ''audio/mp3'', model = ''gpt4''\<rparr>)"
proof -
  let ?body = "JObject [(''message'', JString ''gpt4 explain entropy''), (''model'', JString ''gpt4'')]"
  let ?prompt = "''Be precise and concise, never respond in more than 1-2 sentences! explain entropy''"
  have v: "requestSchema ?body = Inr (''gpt4 explain entropy'', ''gpt4'')"
    by (simp add: requestSchema_def)
  have p: "build_prompt ''gpt4 explain entropy'' = ?prompt"
    by (simp add: build_prompt_def instruction_def toLowerCase_def lower_char_lits)
  have i: "introMessage ''gpt4'' = ''Gpt4 here, ''"
    by (simp add: introMessage_def capitalise_def upper_char_def)
  have s: "select_voice ''gpt4'' = Echo"
    by (simp add: select_voice_def)
  have g: "getModelResponse env ''gpt4'' (build_prompt ''gpt4 explain entropy'')
             = ([HostedCall (Some ''gpt-4'') ?prompt], Inr reply)"
    using assms(1) by (simp add: p getModelResponse_def lift_backend_def)
  have a: "speech_create env (introMessage ''gpt4'' @ reply) (select_voice ''gpt4'') = Some audio"
    using assms(2) by (simp only: i s)
  from POST_succeeds [OF v g a] show ?thesis by (simp only: i s append.simps)
qed

theorem gpt4_explain_entropy_witness:
  "POST answering (JObject [(''message'', JString ''gpt4 explain entropy''), (''model'', JString ''gpt4'')])
     = ([HostedCall (Some ''gpt-4'')
           ''Be precise and concise, never respond in more than 1-2 sentences! explain entropy'',
         SpeechCall ''Gpt4 here, ok'' Echo],
        Responded 200 \<lparr>data = ''QUJD'', contentType = ''audio/mp3'', model = ''gpt4''\<rparr>)"
proof -
  have 1: "llm_invoke answering (Some ''gpt-4'')
             ''Be precise and concise, never respond in more than 1-2 sentences! explain entropy''
           = Some ''ok''"
    by (simp add: answering_def)
  have 2: "speech_create answering (''Gpt4 here, '' @ ''ok'') Echo = Some ''QUJD''"
    by (simp add: answering_def)
  from gpt4_explain_entropy [OF 1 2] show ?thesis by simp
qed

section \<open>What the request schema accepts\<close>

text \<open>
  C9, as the claim states it, fails: the schema is \<^verbatim>\<open>z.string()\<close> with no minimum
  length, so the empty message validates, the hosted backend is called with the bare
  instruction, and the turn is answered with 200.
\<close>

theorem empty_message_reaches_backend:
  "requestSchema (JObject [(''message'', JString [])]) = Inr ([], ''gpt'')
   \<and> POST answering (JObject [(''message'', JString [])])
       = ([HostedCall None ''Be precise and concise, never respond in more than 1-2 sentences! '',
           SpeechCall ''Gpt here, ok'' Echo],
          Responded 200 \<lparr>data = ''QUJD'', contentType = ''audio/mp3'', model = ''gpt''\<rparr>)"
  by (simp add: POST_def requestSchema_def getModelResponse_def createAudio_def build_prompt_def
        instruction_def toLowerCase_def introMessage_def capitalise_def upper_char_def
        select_voice_def lift_backend_def answering_def)

text \<open>
  C9, amended. The dispatcher accepts a request exactly when its body is an object whose
  \<^verbatim>\<open>message\<close> is a string, the empty string included, and whose \<^verbatim>\<open>model\<close> is absent
  (then \<^verbatim>\<open>gpt\<close> is taken) or a string; every other body is rejected before any call to a
  collaborator.
\<close>

theorem requestSchema_accepts_any_string:
  "(requestSchema body = Inr (message, modelName)) =
     (\<exists>props. body = JObject props \<and> map_of props ''message'' = Some (JString message)
        \<and> (case map_of props ''model'' of
              None \<Rightarrow> modelName = ''gpt''
            | Some requested \<Rightarrow> requested = JString modelName))
   \<and> (requestSchema body = Inl e \<longrightarrow> fst (POST env body) = [])"
proof -
  have "(requestSchema body = Inr (message, modelName)) =
     (\<exists>props. body = JObject props \<and> map_of props ''message'' = Some (JString message)
        \<and> (case map_of props ''model'' of
              None \<Rightarrow> modelName = ''gpt''
            | Some requested \<Rightarrow> requested = JString modelName))"
    by (cases body) (auto simp: requestSchema_def split: option.splits json.splits)
  moreover have "fst (POST env body) = []" if "requestSchema body = Inl e"
    using POST_invalid [OF that] by simp
  ultimately show ?thesis by blast
qed

theorem requestSchema_accepts_any_string_witness:
  "requestSchema (JObject [(''message'', JString [])]) = Inr ([], ''gpt'')
   \<and> fst (POST answering (JObject [(''message'', JNull)])) = []"
proof -
  have a: "\<exists>props. JObject [(''message'', JString [])] = JObject props
             \<and> map_of props ''message'' = Some (JString [])
             \<and> (case map_of props ''model'' of
                   None \<Rightarrow> ''gpt'' = ''gpt''
                 | Some requested \<Rightarrow> requested = JString ''gpt'')"
    by simp
  have b: "requestSchema (JObject [(''message'', JNull)]) = Inl ZodError"
    by (simp add: requestSchema_def)
  from a requestSchema_accepts_any_string [of "JObject [(''message'', JString [])]" "[]" "''gpt''"]
  have 1: "requestSchema (JObject [(''message'', JString [])]) = Inr ([], ''gpt'')"
    by blast
  from b requestSchema_accepts_any_string [of "JObject [(''message'', JNull)]" _ _ ZodError answering]
  have 2: "fst (POST answering (JObject [(''message'', JNull)])) = []"
    by blast
  from 1 2 show ?thesis by simp
qed

section \<open>Keyword detection\<close>

text \<open>
  C4, as the claim states it, fails: the three tokens looked at are the first three
  pieces \<^verbatim>\<open>split(" ")\<close> gives, and an empty piece counts. The first three words of
  " tell me gpt4 something" are tell, me, gpt4, yet nothing is detected, because the
  leading space makes the first piece empty and gpt4 the fourth piece; without the
  leading space gpt4 is detected.
\<close>

theorem leading_space_hides_third_word:
  "take 3 (filter (\<lambda>w. w \<noteq> []) (split_sp '' tell me gpt4 something''))
     = [''tell'', ''me'', ''gpt4'']
   \<and> detectedModel '' tell me gpt4 something'' = None
   \<and> detectedModel ''tell me gpt4 something'' = Some ''gpt4''"
  by (simp add: detectedModel_def keyword_window_def modelKeywords_def toLowerCase_def
        lower_char_lits)

text \<open>
  C4, amended. Keyword detection looks only at the first three pieces \<^verbatim>\<open>split(" ")\<close>
  gives of the transcript (the pieces between single spaces, an empty piece included):
  cutting the transcript after its third piece changes nothing, and for a transcript
  of space-free words joined by single spaces only the first three words count. The
  pieces are joined by spaces and lowercased, so letter case in the transcript does not
  matter. The result is exactly the first keyword, in the order of the list, that this
  text contains, and nothing exactly when it contains no keyword; so a keyword the text
  contains always leads to a detection. A keyword that contains another one comes
  before it in the list, so when the more specific keyword is contained the broader one
  is never the answer. For "local mistral please tell me a joke" the answer is the
  identifier \<^verbatim>\<open>local mistral\<close> (spelled with a space), not \<^verbatim>\<open>mistral\<close>.
\<close>

theorem keyword_detection:
  "detectedModel (join_sp (take 3 (split_sp t))) = detectedModel t
   \<and> (ws \<noteq> [] \<and> (\<forall>w\<in>set ws. CHR '' '' \<notin> set w) \<longrightarrow>
        detectedModel (join_sp ws) = detectedModel (join_sp (take 3 ws)))
   \<and> detectedModel (toLowerCase t) = detectedModel t
   \<and> (detectedModel t = Some k) =
       (\<exists>i<length modelKeywords. modelKeywords ! i = k
           \<and> (\<exists>pre post. toLowerCase (join_sp (take 3 (split_sp t))) = pre @ k @ post)
           \<and> (\<forall>j<i. \<not> (\<exists>pre post. toLowerCase (join_sp (take 3 (split_sp t)))
                                       = pre @ modelKeywords ! j @ post)))
   \<and> (detectedModel t = None) =
       (\<forall>keyword\<in>set modelKeywords.
           \<not> (\<exists>pre post. toLowerCase (join_sp (take 3 (split_sp t))) = pre @ keyword @ post))
   \<and> (keyword \<in> set modelKeywords
        \<and> toLowerCase (join_sp (take 3 (split_sp t))) = before @ keyword @ after \<longrightarrow>
        (\<exists>found. detectedModel t = Some found \<and> found \<in> set modelKeywords))
   \<and> (specific \<in> set modelKeywords \<and> broader \<in> set modelKeywords \<and> broader \<noteq> specific
        \<and> str_includes specific broader \<and> str_includes (keyword_window t) specific \<longrightarrow>
        detectedModel t \<noteq> Some broader)
   \<and> detectedModel ''local mistral please tell me a joke'' = Some ''local mistral''
   \<and> detectedModel ''gpt4 explain entropy'' = Some ''gpt4''"
proof -
  have cut: "detectedModel (join_sp (take 3 (split_sp u))) = detectedModel u" for u
    by (simp add: detectedModel_def keyword_window_cut)
  have words: "detectedModel (join_sp ws) = detectedModel (join_sp (take 3 ws))"
    if "ws \<noteq> []" and "\<forall>w\<in>set ws. CHR '' '' \<notin> set w"
  proof -
    have "split_sp (join_sp ws) = ws"
      using that by (rule split_sp_join_sp)
    then have "join_sp (take 3 (split_sp (join_sp ws))) = join_sp (take 3 ws)"
      by simp
    with cut [of "join_sp ws"] show ?thesis
      by simp
  qed
  have lower: "detectedModel (toLowerCase t) = detectedModel t"
    by (simp add: detectedModel_def keyword_window_lower)
  have first: "(detectedModel t = Some k) =
       (\<exists>i<length modelKeywords. modelKeywords ! i = k
           \<and> (\<exists>pre post. toLowerCase (join_sp (take 3 (split_sp t))) = pre @ k @ post)
           \<and> (\<forall>j<i. \<not> (\<exists>pre post. toLowerCase (join_sp (take 3 (split_sp t)))
                                       = pre @ modelKeywords ! j @ post)))"
    unfolding detectedModel_def find_Some_iff str_includes_iff keyword_window_def by blast
  have none: "(detectedModel t = None) =
       (\<forall>keyword\<in>set modelKeywords.
           \<not> (\<exists>pre post. toLowerCase (join_sp (take 3 (split_sp t))) = pre @ keyword @ post))"
    unfolding detectedModel_None str_includes_iff keyword_window_def by blast
  have found: "\<exists>found. detectedModel t = Some found \<and> found \<in> set modelKeywords"
    if "keyword \<in> set modelKeywords"
      and "toLowerCase (join_sp (take 3 (split_sp t))) = before @ keyword @ after"
  proof -
    from that none have "detectedModel t \<noteq> None" by blast
    then obtain found where f: "detectedModel t = Some found" by auto
    from detectedModel_first [OF f] have "found \<in> set modelKeywords"
      by (auto simp: in_set_conv_nth)
    with f show ?thesis by blast
  qed
  have order: "detectedModel t \<noteq> Some broader"
    if "specific \<in> set modelKeywords" and "broader \<in> set modelKeywords"
      and "broader \<noteq> specific" and "str_includes specific broader"
      and "str_includes (keyword_window t) specific"
    using specific_pairs [OF that(1-4)] that(5) by (rule specific_blocks_broader)
  have example: "detectedModel ''local mistral please tell me a joke'' = Some ''local mistral''"
    by (simp add: detectedModel_def keyword_window_def modelKeywords_def toLowerCase_def
          lower_char_lits)
  have example2: "detectedModel ''gpt4 explain entropy'' = Some ''gpt4''"
    by (simp add: detectedModel_def keyword_window_def modelKeywords_def toLowerCase_def
          lower_char_lits)
  from cut words lower first none found order example example2 show ?thesis by blast
qed

theorem keyword_detection_witness:
  "detectedModel ''gpt4 tell me about llama and mistral'' = detectedModel ''gpt4 tell me''
   \<and> detectedModel ''Local Mistral please tell me a joke'' \<noteq> Some ''mistral''
   \<and> (\<exists>found. detectedModel ''Tell me, Perplexity, the news'' = Some found
         \<and> found \<in> set modelKeywords)
   \<and> detectedModel ''please tell me about gpt4'' = None"
proof -
  let ?ws = "[''gpt4'', ''tell'', ''me'', ''about'', ''llama'', ''and'', ''mistral'']"
  let ?t = "''Local Mistral please tell me a joke''"
  let ?u = "''Tell me, Perplexity, the news''"
  let ?v = "''please tell me about gpt4''"
  have w: "?ws \<noteq> [] \<and> (\<forall>w\<in>set ?ws. CHR '' '' \<notin> set w)"
    by simp
  have j: "join_sp ?ws = ''gpt4 tell me about llama and mistral''
           \<and> join_sp (take 3 ?ws) = ''gpt4 tell me''"
    by simp
  have s: "''local mistral'' \<in> set modelKeywords \<and> ''mistral'' \<in> set modelKeywords
           \<and> ''mistral'' \<noteq> ''local mistral'' \<and> str_includes ''local mistral'' ''mistral''
           \<and> str_includes (keyword_window ?t) ''local mistral''"
    by (simp add: modelKeywords_def keyword_window_def toLowerCase_def lower_char_lits)
  have c: "''perplexity'' \<in> set modelKeywords
           \<and> toLowerCase (join_sp (take 3 (split_sp ?u))) = ''tell me, '' @ ''perplexity'' @ '',''"
    by (simp add: modelKeywords_def toLowerCase_def lower_char_lits)
  have n: "\<forall>keyword\<in>set modelKeywords.
             \<not> (\<exists>pre post. toLowerCase (join_sp (take 3 (split_sp ?v))) = pre @ keyword @ post)"
    unfolding str_includes_iff [symmetric]
    by (simp add: modelKeywords_def toLowerCase_def lower_char_lits)
  from w keyword_detection [of _ ?ws] have "detectedModel (join_sp ?ws) = detectedModel (join_sp (take 3 ?ws))"
    by blast
  with j have 1: "detectedModel ''gpt4 tell me about llama and mistral'' = detectedModel ''gpt4 tell me''"
    by simp
  from s keyword_detection [of ?t _ _ _ _ _ "''local mistral''" "''mistral''"]
  have 2: "detectedModel ?t \<noteq> Some ''mistral''"
    by blast
  from c keyword_detection [of ?u _ _ "''perplexity''" "''tell me, ''" "'',''"]
  have 3: "\<exists>found. detectedModel ?u = Some found \<and> found \<in> set modelKeywords"
    by blast
  from n keyword_detection [of ?v]
  have 4: "detectedModel ?v = None"
    by blast
  from 1 2 3 4 show ?thesis by blast
qed

text \<open>
  C5. When the lowercased first three tokens of the transcript contain none of the
  keywords, nothing is detected; the request the silence timeout sends then has no
  \<^verbatim>\<open>model\<close> property, the dispatcher takes \<^verbatim>\<open>gpt\<close> for it and calls the hosted adapter
  with its default model, every response it gives carries the model \<^verbatim>\<open>gpt\<close>, and it
  does give that response when the hosted adapter and the speech service answer.
\<close>

theorem no_keyword_routes_to_gpt:
  assumes "\<forall>k\<in>set modelKeywords. \<not> str_includes (keyword_window t) k"
  shows "detectedModel t = None
    \<and> requests (silence_elapsed t s) = requests s @ [request_body t None]
    \<and> requestSchema (request_body t None) = Inr (t, ''gpt'')
    \<and> take 1 (fst (POST env (request_body t None))) = [HostedCall None (build_prompt t)]
    \<and> (POST env (request_body t None) = (calls, Responded status r) \<longrightarrow> model r = ''gpt'')
    \<and> (llm_invoke env None (build_prompt t) = Some reply
        \<and> speech_create env (''Gpt here, '' @ reply) Echo = Some audio \<longrightarrow>
        POST env (request_body t None)
          = ([HostedCall None (build_prompt t), SpeechCall (''Gpt here, '' @ reply) Echo],
             Responded 200 \<lparr>data = audio, contentType = ''audio/mp3'', model = ''gpt''\<rparr>))"
proof -
  have none: "detectedModel t = None"
    using assms by (simp add: detectedModel_None)
  have sent: "requests (silence_elapsed t s) = requests s @ [request_body t None]"
    by (simp add: silence_elapsed_def none requests_sendToBackend)
  have v: "requestSchema (request_body t None) = Inr (t, ''gpt'')"
    by (simp add: requestSchema_def request_body_def)
  have g: "getModelResponse env ''gpt'' (build_prompt t)
             = ([HostedCall None (build_prompt t)], lift_backend (llm_invoke env None (build_prompt t)))"
    by (simp add: getModelResponse_def)
  have hosted: "take 1 (fst (POST env (request_body t None))) = [HostedCall None (build_prompt t)]"
    using POST_first_call [OF v g] by simp
  have echo: "model r = ''gpt''" if "POST env (request_body t None) = (calls, Responded status r)"
    using that v
    by (auto simp: POST_def createAudio_def Let_def split: sum.splits option.splits prod.splits)
  have i: "introMessage ''gpt'' = ''Gpt here, ''"
    by (simp add: introMessage_def capitalise_def upper_char_def)
  have e: "select_voice ''gpt'' = Echo"
    by (simp add: select_voice_def)
  have answered: "POST env (request_body t None)
          = ([HostedCall None (build_prompt t), SpeechCall (''Gpt here, '' @ reply) Echo],
             Responded 200 \<lparr>data = audio, contentType = ''audio/mp3'', model = ''gpt''\<rparr>)"
    if l: "llm_invoke env None (build_prompt t) = Some reply"
      and a: "speech_create env (''Gpt here, '' @ reply) Echo = Some audio"
  proof -
    have g': "getModelResponse env ''gpt'' (build_prompt t) = ([HostedCall None (build_prompt t)], Inr reply)"
      using g l by (simp add: lift_backend_def)
    have a': "speech_create env (introMessage ''gpt'' @ reply) (select_voice ''gpt'') = Some audio"
      using a by (simp only: i e)
    from POST_succeeds [OF v g' a'] show ?thesis by (simp only: i e append.simps)
  qed
  from none sent v hosted echo answered show ?thesis by blast
qed

theorem no_keyword_routes_to_gpt_witness:
  "detectedModel ''please tell me about gpt4'' = None
   \<and> requests (silence_elapsed ''please tell me about gpt4'' initial)
       = [JObject [(''message'', JString ''please tell me about gpt4'')]]
   \<and> POST answering (JObject [(''message'', JString ''please tell me about gpt4'')])
       = ([HostedCall None (build_prompt ''please tell me about gpt4''),
           SpeechCall ''Gpt here, ok'' Echo],
          Responded 200 \<lparr>data = ''QUJD'', contentType = ''audio/mp3'', model = ''gpt''\<rparr>)
   \<and> model \<lparr>data = ''QUJD'', contentType = ''audio/mp3'', model = ''gpt''\<rparr> = ''gpt''"
proof -
  let ?t = "''please tell me about gpt4''"
  let ?calls = "[HostedCall None (build_prompt ?t), SpeechCall ''Gpt here, ok'' Echo]"
  let ?r = "\<lparr>data = ''QUJD'', contentType = ''audio/mp3'', model = ''gpt''\<rparr>"
  have h: "\<forall>k\<in>set modelKeywords. \<not> str_includes (keyword_window ?t) k"
    by (simp add: modelKeywords_def keyword_window_def toLowerCase_def lower_char_lits)
  have a: "llm_invoke answering None (build_prompt ?t) = Some ''ok''
           \<and> speech_create answering (''Gpt here, '' @ ''ok'') Echo = Some ''QUJD''"
    by (simp add: answering_def)
  have b: "request_body ?t None = JObject [(''message'', JString ?t)]"
    by (simp add: request_body_def)
  have c: "requests initial = []"
    by (simp add: initial_def)
  note n = no_keyword_routes_to_gpt [OF h, of initial answering ?calls 200 ?r "''ok''" "''QUJD''"]
  from n have 1: "detectedModel ?t = None" by blast
  from n b c have 2: "requests (silence_elapsed ?t initial) = [JObject [(''message'', JString ?t)]]"
    by simp
  from n a have 3: "POST answering (request_body ?t None) = (?calls, Responded 200 ?r)"
    by simp
  from n 3 have 4: "model ?r = ''gpt''"
    by blast
  from 1 2 3 4 b show ?thesis by simp
qed

section \<open>The controller's turns\<close>




















text \<open>
  C7 fails on the code. The Start button starts recording whenever the controller is
  neither recording nor playing, also while a request is in flight; when the reply then
  arrives, playback begins with recording still on. Here the user speaks, the silence
  timeout sends the turn, the recognition ends, the user presses Start, and the reply
  arrives: the state has both \<open>isRecording\<close> and \<open>isPlaying\<close> true.
\<close>

theorem recording_and_playing_together:
  "run [ToggleClick, SpeechResult 0 [''tell me a joke''], TimerFires, SpeechEnd 0, ToggleClick,
        ReplyArrives 0 (HttpReply 200 \<lparr>data = ''QUJD'', contentType = ''audio/mp3'', model = ''gpt''\<rparr>)]
       initial
     = Some \<lparr>isRecording = True, isPlaying = True, transcript = [],
             recognitions = [Ended, Active], silenceTimer = None, requests = [],
             audios = [\<lparr>data = ''QUJD'', contentType = ''audio/mp3'', model = ''gpt''\<rparr>]\<rparr>"
  by (simp add: step_def initial_def handleToggleRecording_def startRecording_def
        stopRecording_def sendToBackend_def handleResult_def silence_elapsed_def
        recognition_onend_def reply_arrives_def response_ok_def remove_nth_def Let_def)

end
